theory Spec2Isabelle
  imports Main "HOL-Library.Word"
begin

section \<open>Data declared in common/trace_parser.hpp\<close>

text \<open>
  \<^verbatim>\<open>File::Offset\<close> is declared in trace_file.hpp, which is not part of the sources at hand;
  the specification calls it an opaque, comparable position usable to seek. It is taken
  as a natural number. \<^verbatim>\<open>unsigned\<close> is a 32-bit word, \<^verbatim>\<open>unsigned long long\<close> a 64-bit
  word.
\<close>

type_synonym Offset = nat

text \<open>\<^verbatim>\<open>struct ParseBookmark { File::Offset offset; unsigned next_call_no; };\<close>\<close>

record ParseBookmark =
  offset :: Offset
  next_call_no :: "32 word"

text \<open>\<^verbatim>\<open>enum Mode { FULL = 0, SCAN, SKIP };\<close>\<close>

datatype Mode = FULL | SCAN | SKIP

text \<open>
  \<^verbatim>\<open>template<class T> struct SigState : public T { File::Offset fileOffset; };\<close>
  The base signature types (FunctionSigFlags, StructSig, EnumSig, BitmaskSig, StackFrame)
  come from trace_model.hpp and stay type parameters.
\<close>

record 'sig SigState =
  sig :: 'sig
  fileOffset :: Offset

text \<open>
  Modelled from the spec: the Byte Source (class File of trace_file.hpp, not among the
  sources). The specification gives it a current offset and a seek operation; the bytes
  themselves are kept as a list.
\<close>

record File =
  bytes :: "8 word list"
  pos :: Offset

text \<open>Modelled from the spec: the Byte Source's \<^verbatim>\<open>offset()\<close>, the current position.\<close>

definition currentOffset :: "File \<Rightarrow> Offset" where
  "currentOffset f = pos f"

text \<open>Modelled from the spec: the Byte Source's \<^verbatim>\<open>seek(ByteOffset)\<close>.\<close>

definition setCurrentOffset :: "File \<Rightarrow> Offset \<Rightarrow> File" where
  "setCurrentOffset f off = f\<lparr>pos := off\<rparr>"

text \<open>
  The fields of \<^verbatim>\<open>class Parser\<close>. The maps are \<^verbatim>\<open>std::vector\<close>s of pointers indexed by
  id; a null entry is \<open>None\<close>. The fields \<^verbatim>\<open>file\<close> and \<^verbatim>\<open>functions\<close> are written
  \<open>file'\<close> and \<open>functions'\<close>. \<^verbatim>\<open>Call\<close> and \<^verbatim>\<open>API\<close> are declared in headers that are not
  among the sources and stay type parameters.
\<close>

record ('call, 'fsig, 'ssig, 'esig, 'bsig, 'frame, 'api) Parser =
  file' :: File
  calls :: "'call list"
  functions' :: "'fsig SigState option list"
  structs :: "'ssig SigState option list"
  enums :: "'esig SigState option list"
  bitmasks :: "'bsig SigState option list"
  frames :: "'frame SigState option list"
  glGetErrorSig :: "'fsig option"
  next_call_no :: "32 word"
  version :: "64 word"
  api :: 'api

section \<open>The core parser's inline members\<close>

text \<open>
  \<^verbatim>\<open>Call *parse_call(Mode mode)\<close> is only declared in the header. Every function below
  that calls it takes it as the parameter \<open>pcm\<close>: a function from the mode and the parser
  state to the returned pointer (\<open>None\<close> for null) and the new state.
\<close>

type_synonym ('st, 'call) decoder = "Mode \<Rightarrow> 'st \<Rightarrow> 'call option \<times> 'st"

text \<open>
  \<^verbatim>\<open>Call *parse_call(bool & del) { del = true; return parse_call(FULL); }\<close>
  The result is the returned pointer, the value of \<open>del\<close> afterwards and the new state.
\<close>

definition Parser_parse_call ::
  "('st, 'call) decoder \<Rightarrow> 'st \<Rightarrow> bool \<Rightarrow> 'call option \<times> bool \<times> 'st" where
  "Parser_parse_call pcm p del =
     (let del' = True; (r, p') = pcm FULL p in (r, del', p'))"

text \<open>\<^verbatim>\<open>Call *scan_call() { return parse_call(SCAN); }\<close>\<close>

definition scan_call :: "('st, 'call) decoder \<Rightarrow> 'st \<Rightarrow> 'call option \<times> 'st" where
  "scan_call pcm p = pcm SCAN p"

text \<open>
  \<^verbatim>\<open>inline Value *parse_value(Mode mode) { if (mode == FULL) { return parse_value(); }
  else { scan_value(); return NULL; } }\<close>
  \<^verbatim>\<open>parse_value(void)\<close> and \<^verbatim>\<open>scan_value(void)\<close> are only declared; they are the parameters
  \<open>parse_value\<close> and \<open>scan_value\<close>.
\<close>

definition parse_value_mode ::
  "('st \<Rightarrow> 'v option \<times> 'st) \<Rightarrow> ('st \<Rightarrow> 'st) \<Rightarrow> Mode \<Rightarrow> 'st \<Rightarrow> 'v option \<times> 'st" where
  "parse_value_mode parse_value scan_value mode p =
     (if mode = FULL then parse_value p else (None, scan_value p))"

text \<open>\<^verbatim>\<open>void bookmarkFrameStart(trace::Call *call) {};\<close>\<close>

definition Parser_bookmarkFrameStart :: "'st \<Rightarrow> 'call \<Rightarrow> 'st" where
  "Parser_bookmarkFrameStart p call = p"

text \<open>\<^verbatim>\<open>unsigned long long get_version() {return version;}\<close>\<close>

definition Parser_get_version ::
  "('call, 'fsig, 'ssig, 'esig, 'bsig, 'frame, 'api) Parser \<Rightarrow> 64 word" where
  "Parser_get_version p = version p"

subsection \<open>Bookmarks\<close>

text \<open>
  Modelled from the spec: \<^verbatim>\<open>Parser::getBookmark\<close>, declared at line 138 of the header, its
  body not among the sources. The specification: "capture current (offset, nextCallNo)".
  The bookmark is passed by reference; the parser itself is not changed.
\<close>

definition Parser_getBookmark ::
  "('call, 'fsig, 'ssig, 'esig, 'bsig, 'frame, 'api) Parser \<Rightarrow> ParseBookmark
   \<Rightarrow> ('call, 'fsig, 'ssig, 'esig, 'bsig, 'frame, 'api) Parser \<times> ParseBookmark" where
  "Parser_getBookmark p bookmark =
     (p, bookmark\<lparr>offset := currentOffset (file' p),
                  ParseBookmark.next_call_no := Parser.next_call_no p\<rparr>)"

text \<open>
  Modelled from the spec: \<^verbatim>\<open>Parser::setBookmark\<close>, declared at line 140 of the header, its
  body not among the sources. The specification: "restoring repositions the byte source
  and resets the counter but leaves Symbol Tables intact". The specification names no
  other effect, so the list of pending calls and every other field stay as they are.
\<close>

definition Parser_setBookmark ::
  "('call, 'fsig, 'ssig, 'esig, 'bsig, 'frame, 'api) Parser \<Rightarrow> ParseBookmark
   \<Rightarrow> ('call, 'fsig, 'ssig, 'esig, 'bsig, 'frame, 'api) Parser" where
  "Parser_setBookmark p bookmark =
     p\<lparr>file' := setCurrentOffset (file' p) (offset bookmark),
       Parser.next_call_no := ParseBookmark.next_call_no bookmark\<rparr>"

text \<open>The parser state after \<open>n\<close> successive calls of the public \<^verbatim>\<open>parse_call\<close>.\<close>

fun parse_calls :: "('st, 'call) decoder \<Rightarrow> nat \<Rightarrow> 'st \<Rightarrow> 'st" where
  "parse_calls pcm 0 p = p"
| "parse_calls pcm (Suc n) p = parse_calls pcm n (snd (snd (Parser_parse_call pcm p True)))"

subsection \<open>Symbol tables\<close>

text \<open>
  Modelled from the spec: the lookup in a symbol table. The specification:
  "lookup(kind, id) returns the cached signature; id must already have been registered by
  prior decode". The table is the header's vector indexed by id; an id beyond its end or
  at a null entry is not registered.
\<close>

definition lookup :: "'a option list \<Rightarrow> nat \<Rightarrow> 'a option" where
  "lookup tbl i = (if i < length tbl then tbl ! i else None)"

text \<open>
  Modelled from the spec: the registration of a signature, which the header only declares
  (\<^verbatim>\<open>parse_function_sig\<close>, \<^verbatim>\<open>parse_struct_sig\<close>, \<^verbatim>\<open>parse_enum_sig\<close>, \<^verbatim>\<open>parse_bitmask_sig\<close>,
  \<^verbatim>\<open>parse_backtrace_frame\<close>). The specification: "registration happens only while decoding
  a call record that references a not-yet-seen id: the table stores the new SignatureState
  keyed by id with definingOffset = the offset consumed for that definition". The vector
  is extended with null entries up to the id being stored.
\<close>

definition register :: "'s SigState option list \<Rightarrow> nat \<Rightarrow> 's \<Rightarrow> Offset \<Rightarrow> 's SigState option list" where
  "register tbl i s off =
     (case lookup tbl i of
        Some known \<Rightarrow> tbl
      | None \<Rightarrow> (tbl @ replicate (Suc i - length tbl) None)
                  [i := Some \<lparr>sig = s, fileOffset = off\<rparr>])"

text \<open>
  What can happen to a parser between two lookups: the decoder meets a reference to an
  id of one of the five kinds (the signature given is the one the definition in the
  stream carries, used when the id is not yet known), the decoder consumes bytes and
  counts a call, or the caller restores a bookmark.
\<close>

datatype ('fsig, 'ssig, 'esig, 'bsig, 'frame) event =
    RefFunction nat 'fsig
  | RefStruct nat 'ssig
  | RefEnum nat 'esig
  | RefBitmask nat 'bsig
  | RefFrame nat 'frame
  | Consume nat
  | Restore ParseBookmark

text \<open>
  Modelled from the spec: the effect of each event on the parser. A reference registers
  the signature at the current offset when the id is not yet known and changes nothing
  otherwise; decoding moves the position and the call counter; a restore is
  \<^verbatim>\<open>setBookmark\<close>.
\<close>

fun step ::
  "('call, 'fsig, 'ssig, 'esig, 'bsig, 'frame, 'api) Parser
   \<Rightarrow> ('fsig, 'ssig, 'esig, 'bsig, 'frame) event
   \<Rightarrow> ('call, 'fsig, 'ssig, 'esig, 'bsig, 'frame, 'api) Parser" where
  "step p (RefFunction i s) =
     p\<lparr>functions' := register (functions' p) i s (currentOffset (file' p))\<rparr>"
| "step p (RefStruct i s) =
     p\<lparr>structs := register (structs p) i s (currentOffset (file' p))\<rparr>"
| "step p (RefEnum i s) =
     p\<lparr>enums := register (enums p) i s (currentOffset (file' p))\<rparr>"
| "step p (RefBitmask i s) =
     p\<lparr>bitmasks := register (bitmasks p) i s (currentOffset (file' p))\<rparr>"
| "step p (RefFrame i s) =
     p\<lparr>frames := register (frames p) i s (currentOffset (file' p))\<rparr>"
| "step p (Consume n) =
     p\<lparr>file' := setCurrentOffset (file' p) (currentOffset (file' p) + n),
       Parser.next_call_no := Parser.next_call_no p + 1\<rparr>"
| "step p (Restore b) = Parser_setBookmark p b"

definition run ::
  "('call, 'fsig, 'ssig, 'esig, 'bsig, 'frame, 'api) Parser
   \<Rightarrow> ('fsig, 'ssig, 'esig, 'bsig, 'frame) event list
   \<Rightarrow> ('call, 'fsig, 'ssig, 'esig, 'bsig, 'frame, 'api) Parser" where
  "run p evs = foldl step p evs"

section \<open>FastParser: the decorator looping over a vector of saved calls\<close>

text \<open>
  The fields of \<^verbatim>\<open>class FastParser\<close>: the wrapped parser and the vector of saved calls are
  held by pointer; the record keeps the objects pointed to, so that an operation that
  leaves the record unchanged has touched neither of them.
\<close>

record ('p, 'call) FastParser =
  parser :: 'p
  savedCalls :: "'call list"
  idx :: "32 word"

text \<open>\<^verbatim>\<open>FastParser(AbstractParser *p, std::vector<Call *> *s) { parser = p; savedCalls = s; idx = 0; }\<close>\<close>

definition FastParser_new :: "'p \<Rightarrow> 'call list \<Rightarrow> ('p, 'call) FastParser" where
  "FastParser_new p s = \<lparr>parser = p, savedCalls = s, idx = 0\<rparr>"

text \<open>\<^verbatim>\<open>void bookmarkFrameStart(trace::Call *call) {}\<close>\<close>

definition FastParser_bookmarkFrameStart ::
  "('p, 'call) FastParser \<Rightarrow> 'call option \<Rightarrow> ('p, 'call) FastParser" where
  "FastParser_bookmarkFrameStart fp call = fp"

text \<open>
  \<^verbatim>\<open>void getBookmark(ParseBookmark &bookmark) {}\<close>
  The bookmark is passed by reference; the result holds the replayer and the bookmark
  as they are after the call.
\<close>

definition FastParser_getBookmark ::
  "('p, 'call) FastParser \<Rightarrow> ParseBookmark \<Rightarrow> ('p, 'call) FastParser \<times> ParseBookmark" where
  "FastParser_getBookmark fp bookmark = (fp, bookmark)"

text \<open>\<^verbatim>\<open>void setBookmark(const ParseBookmark &bookmark) {}\<close>\<close>

definition FastParser_setBookmark ::
  "('p, 'call) FastParser \<Rightarrow> ParseBookmark \<Rightarrow> ('p, 'call) FastParser" where
  "FastParser_setBookmark fp bookmark = fp"

text \<open>\<^verbatim>\<open>bool open(const char *filename) {return false;}\<close>\<close>

definition FastParser_open ::
  "('p, 'call) FastParser \<Rightarrow> string \<Rightarrow> bool \<times> ('p, 'call) FastParser" where
  "FastParser_open fp filename = (False, fp)"

text \<open>\<^verbatim>\<open>void close(void) {}\<close>\<close>

definition FastParser_close :: "('p, 'call) FastParser \<Rightarrow> ('p, 'call) FastParser" where
  "FastParser_close fp = fp"

text \<open>\<^verbatim>\<open>unsigned long long get_version(void) {return 0;}\<close>\<close>

definition FastParser_get_version :: "('p, 'call) FastParser \<Rightarrow> 64 word \<times> ('p, 'call) FastParser" where
  "FastParser_get_version fp = (0, fp)"

text \<open>
  The operations of the replayer other than \<^verbatim>\<open>parse_call\<close>, as a caller may issue them in
  any order, and the state after a whole series of them.
\<close>

datatype 'call FastParser_op =
    BookmarkFrameStart "'call option"
  | GetBookmark ParseBookmark
  | SetBookmark ParseBookmark
  | Open string
  | Close
  | GetVersion

fun FastParser_apply ::
  "('p, 'call) FastParser \<Rightarrow> 'call FastParser_op \<Rightarrow> ('p, 'call) FastParser" where
  "FastParser_apply fp (BookmarkFrameStart c) = FastParser_bookmarkFrameStart fp c"
| "FastParser_apply fp (GetBookmark b) = fst (FastParser_getBookmark fp b)"
| "FastParser_apply fp (SetBookmark b) = FastParser_setBookmark fp b"
| "FastParser_apply fp (Open name) = snd (FastParser_open fp name)"
| "FastParser_apply fp Close = FastParser_close fp"
| "FastParser_apply fp GetVersion = snd (FastParser_get_version fp)"

section \<open>LastFrameLoopParser: the decorator for a looping parser\<close>

text \<open>
  \<^verbatim>\<open>extern bool loopOnFinish; extern bool loopContinuous; extern unsigned loopIter;\<close>
  The three globals of the header, as one record.
\<close>

record LoopPolicy =
  loopOnFinish :: bool
  loopContinuous :: bool
  loopIter :: "32 word"

text \<open>
  The fields of \<^verbatim>\<open>class LastFrameLoopParser\<close>, as the header declares them (lines 293-300).
  The wrapped parser is held as \<^verbatim>\<open>AbstractParser *\<close> and is kept as the object pointed to;
  \<^verbatim>\<open>fp\<close> is a pointer that is null until a replayer exists.
\<close>

record ('p, 'call) LastFrameLoopParser =
  parser :: 'p
  fp :: "('p, 'call) FastParser option"
  callEndsFrame :: bool
  firstCall :: bool
  frameStart :: ParseBookmark
  lastFrameStart :: ParseBookmark
  savedCalls :: "'call list"
  savingCalls :: bool

text \<open>
  \<^verbatim>\<open>LastFrameLoopParser(AbstractParser *p) { parser = p; callEndsFrame = false;
  firstCall = true; savedCalls.clear(); savingCalls = false; fp = NULL; }\<close>
  \<^verbatim>\<open>frameStart\<close> and \<^verbatim>\<open>lastFrameStart\<close> are left uninitialised there and are arguments here.
\<close>

definition LastFrameLoopParser_new ::
  "'p \<Rightarrow> ParseBookmark \<Rightarrow> ParseBookmark \<Rightarrow> ('p, 'call) LastFrameLoopParser" where
  "LastFrameLoopParser_new p fs lfs =
     \<lparr>parser = p, fp = None, callEndsFrame = False, firstCall = True, frameStart = fs,
      lastFrameStart = lfs, savedCalls = [], savingCalls = False\<rparr>"

text \<open>
  The members that delegate to the wrapped parser. The wrapped parser's virtual member is
  the first argument of each: it maps the wrapped parser's state and the member's
  arguments to what the member returns or writes and the wrapped parser's new state.
\<close>

text \<open>\<^verbatim>\<open>void getBookmark(ParseBookmark &bookmark) {parser->getBookmark(bookmark);}\<close>\<close>

definition LastFrameLoopParser_getBookmark ::
  "('p \<Rightarrow> ParseBookmark \<Rightarrow> 'p \<times> ParseBookmark) \<Rightarrow> ('p, 'call) LastFrameLoopParser
   \<Rightarrow> ParseBookmark \<Rightarrow> ('p, 'call) LastFrameLoopParser \<times> ParseBookmark" where
  "LastFrameLoopParser_getBookmark inner st bookmark =
     (let (p', bookmark') = inner (parser st) bookmark in (st\<lparr>parser := p'\<rparr>, bookmark'))"

text \<open>\<^verbatim>\<open>void setBookmark(const ParseBookmark &bookmark) {parser->setBookmark(bookmark);}\<close>\<close>

definition LastFrameLoopParser_setBookmark ::
  "('p \<Rightarrow> ParseBookmark \<Rightarrow> 'p) \<Rightarrow> ('p, 'call) LastFrameLoopParser \<Rightarrow> ParseBookmark
   \<Rightarrow> ('p, 'call) LastFrameLoopParser" where
  "LastFrameLoopParser_setBookmark inner st bookmark =
     st\<lparr>parser := inner (parser st) bookmark\<rparr>"

text \<open>\<^verbatim>\<open>bool open(const char *filename) {return parser->open(filename);}\<close>\<close>

definition LastFrameLoopParser_open ::
  "('p \<Rightarrow> string \<Rightarrow> bool \<times> 'p) \<Rightarrow> ('p, 'call) LastFrameLoopParser \<Rightarrow> string
   \<Rightarrow> bool \<times> ('p, 'call) LastFrameLoopParser" where
  "LastFrameLoopParser_open inner st filename =
     (let (ok, p') = inner (parser st) filename in (ok, st\<lparr>parser := p'\<rparr>))"

text \<open>\<^verbatim>\<open>void close(void) {parser->close();}\<close>\<close>

definition LastFrameLoopParser_close ::
  "('p \<Rightarrow> 'p) \<Rightarrow> ('p, 'call) LastFrameLoopParser \<Rightarrow> ('p, 'call) LastFrameLoopParser" where
  "LastFrameLoopParser_close inner st = st\<lparr>parser := inner (parser st)\<rparr>"

text \<open>\<^verbatim>\<open>unsigned long long get_version(void) {return parser->get_version();}\<close>\<close>

definition LastFrameLoopParser_get_version ::
  "('p \<Rightarrow> 64 word \<times> 'p) \<Rightarrow> ('p, 'call) LastFrameLoopParser
   \<Rightarrow> 64 word \<times> ('p, 'call) LastFrameLoopParser" where
  "LastFrameLoopParser_get_version inner st =
     (let (v, p') = inner (parser st) in (v, st\<lparr>parser := p'\<rparr>))"

section \<open>Example data\<close>

text \<open>
  A parser that has already registered one signature of each kind, and a series of events
  with two bookmark restores, references to known ids and references to new ones.
\<close>

definition example_parser :: "(nat, string, string, string, string, string, unit) Parser" where
  "example_parser =
     \<lparr>file' = \<lparr>bytes = [], pos = 40\<rparr>, calls = [],
      functions' = [None, Some \<lparr>sig = ''glClear'', fileOffset = 12\<rparr>],
      structs = [Some \<lparr>sig = ''Rect'', fileOffset = 20\<rparr>],
      enums = [None, None, Some \<lparr>sig = ''GLenum'', fileOffset = 25\<rparr>],
      bitmasks = [Some \<lparr>sig = ''GLbitfield'', fileOffset = 30\<rparr>],
      frames = [Some \<lparr>sig = ''main'', fileOffset = 35\<rparr>],
      glGetErrorSig = None, next_call_no = 3, version = 5, api = ()\<rparr>"

definition example_events :: "(string, string, string, string, string) event list" where
  "example_events =
     [Restore \<lparr>offset = 0, next_call_no = 0\<rparr>, RefFunction 1 ''other'', RefFunction 3 ''glEnd'',
      RefStruct 0 ''other'', RefEnum 2 ''other'', RefEnum 0 ''Bool'', RefBitmask 0 ''other'',
      RefFrame 0 ''other'', Consume 7, Restore \<lparr>offset = 2, next_call_no = 1\<rparr>,
      RefFunction 1 ''again'']"

section \<open>Properties of the inline members\<close>

text \<open>
  In every mode other than FULL the value decoder runs \<^verbatim>\<open>scan_value\<close> and returns the null
  pointer; in mode FULL it is \<^verbatim>\<open>parse_value\<close>. \<^verbatim>\<open>scan_call\<close> hands back whatever the decoder
  returns in mode SCAN.
\<close>

lemma parse_value_mode_skipping:
  "mode \<noteq> FULL \<Longrightarrow> parse_value_mode pv sv mode p = (None, sv p)"
  by (simp add: parse_value_mode_def)

lemma parse_value_mode_full: "parse_value_mode pv sv FULL p = pv p"
  by (simp add: parse_value_mode_def)

lemma scan_call_forwards: "scan_call pcm p = pcm SCAN p"
  by (simp add: scan_call_def)

lemma FastParser_apply_id: "FastParser_apply rp x = rp"
  by (cases x)
     (simp_all add: FastParser_bookmarkFrameStart_def FastParser_getBookmark_def
        FastParser_setBookmark_def FastParser_open_def FastParser_close_def
        FastParser_get_version_def)

lemma FastParser_run_id: "foldl FastParser_apply rp xs = rp"
  by (induction xs) (simp_all add: FastParser_apply_id)

text \<open>
  C9. On the cached replayer, getBookmark, setBookmark and bookmarkFrameStart change
  neither the replayer nor the bookmark handed in, close changes nothing, get_version
  returns zero, and open returns false without changing anything; this holds for every
  argument and every replayer state, and so for every series of these operations.
\<close>

theorem FastParser_unsupported_operations:
  "FastParser_getBookmark rp b = (rp, b)
   \<and> FastParser_setBookmark rp b = rp
   \<and> FastParser_bookmarkFrameStart rp c = rp
   \<and> FastParser_close rp = rp
   \<and> FastParser_get_version rp = (0, rp)
   \<and> FastParser_open rp name = (False, rp)
   \<and> foldl FastParser_apply rp xs = rp"
  by (simp add: FastParser_bookmarkFrameStart_def FastParser_getBookmark_def
        FastParser_setBookmark_def FastParser_open_def FastParser_close_def
        FastParser_get_version_def FastParser_run_id)

text \<open>
  C10. Whatever the decoder does, whatever the parser state and whatever the flag held
  before, after the public parse_call the flag \<open>del\<close> is true, both when a call is
  returned and when the null pointer is; the returned pointer and the new state are
  those of the decoder in mode FULL.
\<close>

theorem Parser_parse_call_sets_del:
  "fst (snd (Parser_parse_call pcm p del)) = True
   \<and> fst (Parser_parse_call pcm p del) = fst (pcm FULL p)
   \<and> snd (snd (Parser_parse_call pcm p del)) = snd (pcm FULL p)"
  by (simp add: Parser_parse_call_def split: prod.split)

section \<open>Properties of the bookmarks and the symbol tables\<close>

lemma lookup_register_keeps:
  "lookup tbl i = Some x \<Longrightarrow> lookup (register tbl j s off) i = Some x"
  by (auto simp: lookup_def register_def nth_append nth_list_update split: option.splits if_splits)

lemma length_register: "length tbl \<le> length (register tbl j s off)"
  by (simp add: register_def split: option.splits)

lemma step_keeps_functions:
  "lookup (functions' p) i = Some x \<Longrightarrow> lookup (functions' (step p e)) i = Some x"
  by (cases e) (simp_all add: lookup_register_keeps Parser_setBookmark_def)

lemma step_keeps_structs:
  "lookup (structs p) i = Some x \<Longrightarrow> lookup (structs (step p e)) i = Some x"
  by (cases e) (simp_all add: lookup_register_keeps Parser_setBookmark_def)

lemma step_keeps_enums:
  "lookup (enums p) i = Some x \<Longrightarrow> lookup (enums (step p e)) i = Some x"
  by (cases e) (simp_all add: lookup_register_keeps Parser_setBookmark_def)

lemma step_keeps_bitmasks:
  "lookup (bitmasks p) i = Some x \<Longrightarrow> lookup (bitmasks (step p e)) i = Some x"
  by (cases e) (simp_all add: lookup_register_keeps Parser_setBookmark_def)

lemma step_keeps_frames:
  "lookup (frames p) i = Some x \<Longrightarrow> lookup (frames (step p e)) i = Some x"
  by (cases e) (simp_all add: lookup_register_keeps Parser_setBookmark_def)

lemma step_grows:
  "length (functions' p) \<le> length (functions' (step p e))
   \<and> length (structs p) \<le> length (structs (step p e))
   \<and> length (enums p) \<le> length (enums (step p e))
   \<and> length (bitmasks p) \<le> length (bitmasks (step p e))
   \<and> length (frames p) \<le> length (frames (step p e))"
  by (cases e) (simp_all add: length_register Parser_setBookmark_def)

lemma run_keeps_functions:
  "lookup (functions' p) i = Some x \<Longrightarrow> lookup (functions' (run p evs)) i = Some x"
  unfolding run_def by (induction evs arbitrary: p) (simp_all add: step_keeps_functions)

lemma run_keeps_structs:
  "lookup (structs p) i = Some x \<Longrightarrow> lookup (structs (run p evs)) i = Some x"
  unfolding run_def by (induction evs arbitrary: p) (simp_all add: step_keeps_structs)

lemma run_keeps_enums:
  "lookup (enums p) i = Some x \<Longrightarrow> lookup (enums (run p evs)) i = Some x"
  unfolding run_def by (induction evs arbitrary: p) (simp_all add: step_keeps_enums)

lemma run_keeps_bitmasks:
  "lookup (bitmasks p) i = Some x \<Longrightarrow> lookup (bitmasks (run p evs)) i = Some x"
  unfolding run_def by (induction evs arbitrary: p) (simp_all add: step_keeps_bitmasks)

lemma run_keeps_frames:
  "lookup (frames p) i = Some x \<Longrightarrow> lookup (frames (run p evs)) i = Some x"
  unfolding run_def by (induction evs arbitrary: p) (simp_all add: step_keeps_frames)

lemma run_grows:
  "length (functions' p) \<le> length (functions' (run p evs))
   \<and> length (structs p) \<le> length (structs (run p evs))
   \<and> length (enums p) \<le> length (enums (run p evs))
   \<and> length (bitmasks p) \<le> length (bitmasks (run p evs))
   \<and> length (frames p) \<le> length (frames (run p evs))"
  unfolding run_def
proof (induction evs arbitrary: p)
  case Nil
  show ?case by simp
next
  case (Cons e evs)
  show ?case
    using step_grows [of p e] Cons.IH [of "step p e"] by (simp del: step.simps)
qed

text \<open>
  C2. In every parser state reached by any number of parse_call invocations, restoring the
  bookmark just taken gives back the very same parser state, so the call decoded next
  (returned pointer, flag and new state) is the one that would have been decoded without
  the getBookmark/setBookmark round trip, whatever the decoder is.
\<close>

theorem bookmark_round_trip:
  "Parser_setBookmark (fst (Parser_getBookmark (parse_calls pcm n p0) b))
       (snd (Parser_getBookmark (parse_calls pcm n p0) b)) = parse_calls pcm n p0
   \<and> Parser_parse_call pcm
        (Parser_setBookmark (fst (Parser_getBookmark (parse_calls pcm n p0) b))
           (snd (Parser_getBookmark (parse_calls pcm n p0) b))) del
     = Parser_parse_call pcm (parse_calls pcm n p0) del"
  by (simp add: Parser_setBookmark_def Parser_getBookmark_def setCurrentOffset_def
        currentOffset_def)

text \<open>
  C3. For each of the five kinds, a signature registered under an id is returned
  unchanged (signature and defining offset) by every later lookup of that id, after any
  series of further references, decoding progress and bookmark restores; the tables never
  get shorter; and setBookmark itself leaves all five tables exactly as they are, while it
  moves the byte source to the bookmark's offset and sets the call counter to the
  bookmark's.
\<close>

theorem symbol_tables_stable:
  "(lookup (functions' p) i = Some f \<longrightarrow> lookup (functions' (run p evs)) i = Some f)
   \<and> (lookup (structs p) i = Some s \<longrightarrow> lookup (structs (run p evs)) i = Some s)
   \<and> (lookup (enums p) i = Some e \<longrightarrow> lookup (enums (run p evs)) i = Some e)
   \<and> (lookup (bitmasks p) i = Some m \<longrightarrow> lookup (bitmasks (run p evs)) i = Some m)
   \<and> (lookup (frames p) i = Some k \<longrightarrow> lookup (frames (run p evs)) i = Some k)
   \<and> length (functions' p) \<le> length (functions' (run p evs))
   \<and> length (structs p) \<le> length (structs (run p evs))
   \<and> length (enums p) \<le> length (enums (run p evs))
   \<and> length (bitmasks p) \<le> length (bitmasks (run p evs))
   \<and> length (frames p) \<le> length (frames (run p evs))
   \<and> functions' (Parser_setBookmark p b) = functions' p
   \<and> structs (Parser_setBookmark p b) = structs p
   \<and> enums (Parser_setBookmark p b) = enums p
   \<and> bitmasks (Parser_setBookmark p b) = bitmasks p
   \<and> frames (Parser_setBookmark p b) = frames p
   \<and> currentOffset (file' (Parser_setBookmark p b)) = offset b
   \<and> Parser.next_call_no (Parser_setBookmark p b) = ParseBookmark.next_call_no b"
  using run_grows [of p evs]
  by (simp add: run_keeps_functions run_keeps_structs run_keeps_enums run_keeps_bitmasks
        run_keeps_frames Parser_setBookmark_def setCurrentOffset_def currentOffset_def)

theorem symbol_tables_stable_witness:
  "lookup (functions' example_parser) 1 = Some \<lparr>sig = ''glClear'', fileOffset = 12\<rparr>
   \<and> lookup (functions' (run example_parser example_events)) 1
       = Some \<lparr>sig = ''glClear'', fileOffset = 12\<rparr>
   \<and> lookup (structs example_parser) 0 = Some \<lparr>sig = ''Rect'', fileOffset = 20\<rparr>
   \<and> lookup (structs (run example_parser example_events)) 0
       = Some \<lparr>sig = ''Rect'', fileOffset = 20\<rparr>
   \<and> lookup (enums example_parser) 2 = Some \<lparr>sig = ''GLenum'', fileOffset = 25\<rparr>
   \<and> lookup (enums (run example_parser example_events)) 2
       = Some \<lparr>sig = ''GLenum'', fileOffset = 25\<rparr>
   \<and> lookup (bitmasks example_parser) 0 = Some \<lparr>sig = ''GLbitfield'', fileOffset = 30\<rparr>
   \<and> lookup (bitmasks (run example_parser example_events)) 0
       = Some \<lparr>sig = ''GLbitfield'', fileOffset = 30\<rparr>
   \<and> lookup (frames example_parser) 0 = Some \<lparr>sig = ''main'', fileOffset = 35\<rparr>
   \<and> lookup (frames (run example_parser example_events)) 0
       = Some \<lparr>sig = ''main'', fileOffset = 35\<rparr>"
  using symbol_tables_stable [where p = example_parser and evs = example_events and i = 1
          and f = "\<lparr>sig = ''glClear'', fileOffset = 12\<rparr>"]
        symbol_tables_stable [where p = example_parser and evs = example_events and i = 0
          and s = "\<lparr>sig = ''Rect'', fileOffset = 20\<rparr>"
          and m = "\<lparr>sig = ''GLbitfield'', fileOffset = 30\<rparr>"
          and k = "\<lparr>sig = ''main'', fileOffset = 35\<rparr>"]
        symbol_tables_stable [where p = example_parser and evs = example_events and i = 2
          and e = "\<lparr>sig = ''GLenum'', fileOffset = 25\<rparr>"]
  by (simp add: example_parser_def lookup_def)

end
